theory Spec2Isabelle
  imports Main "HOL-Library.Multiset" "HOL-Library.Sublist"
begin

section \<open>Errors\<close>

text \<open>
  Go's \<^verbatim>\<open>error\<close> values as they occur in the program: a plain message
  (\<^verbatim>\<open>errors.New\<close>, \<^verbatim>\<open>fmt.Errorf\<close> without an error operand) or a message
  wrapping another error (\<^verbatim>\<open>fmt.Errorf\<close> with \<^verbatim>\<open>%w\<close>). A \<^verbatim>\<open>nil\<close> error is
  \<open>None\<close> of \<open>error option\<close>.
\<close>

datatype error = ErrorString string | WrapError string error

fun Error :: "error \<Rightarrow> string" where
  "Error (ErrorString s) = s"
| "Error (WrapError msg err) = msg"

fun Unwrap :: "error \<Rightarrow> error option" where
  "Unwrap (ErrorString s) = None"
| "Unwrap (WrapError msg err) = Some err"

text \<open>
  \<^verbatim>\<open>fmt.Errorf(prefix + "%w", err)\<close>: with a non-nil operand the result wraps it and
  its text is the prefix followed by the operand's text; with a \<^verbatim>\<open>nil\<close> operand the
  verb is printed as \<^verbatim>\<open>%!w(<nil>)\<close> and nothing is wrapped.
\<close>

definition Errorf_w :: "string \<Rightarrow> error option \<Rightarrow> error" where
  "Errorf_w msg err =
     (case err of
        None \<Rightarrow> ErrorString (msg @ ''%!w(<nil>)'')
      | Some e \<Rightarrow> WrapError (msg @ Error e) e)"

section \<open>Configuration (internal/config/config.go)\<close>

record Config =
  BeVerbose :: bool
  ShowHelp :: bool
  FromAddr :: string
  SmtpAddrs :: "string list"
  Recipients :: "string list"

definition MailRelayEnvVar :: string where
  "MailRelayEnvVar = ''MAILRELAY_SERVERS''"

definition SenderEnvVar :: string where
  "SenderEnvVar = ''MAILRELAY_FROM''"

text \<open>\<^verbatim>\<open>validateSettings\<close>: \<open>None\<close> is the \<^verbatim>\<open>nil\<close> return.\<close>

definition validateSettings :: "Config \<Rightarrow> error option" where
  "validateSettings cfg =
     (if length (SmtpAddrs cfg) = 0
      then Some (ErrorString
             (''at least one SMTP address is required to continue, set '' @ MailRelayEnvVar))
      else if FromAddr cfg = ''''
      then Some (ErrorString (''either pass sender using -f or set '' @ SenderEnvVar))
      else None)"

text \<open>
  The random source \<^verbatim>\<open>r\<close> of \<^verbatim>\<open>randomizeSMTPServers\<close>: the sequence of values
  its successive \<^verbatim>\<open>r.Int()\<close> calls return (non-negative, as \<^verbatim>\<open>math/rand\<close>
  documents, hence \<open>nat\<close>) and the number of values drawn so far.
\<close>

record Rand =
  draws :: "nat \<Rightarrow> nat"
  drawn :: nat

definition Rand_Int :: "Rand \<Rightarrow> nat \<times> Rand" where
  "Rand_Int r = (draws r (drawn r), r\<lparr>drawn := drawn r + 1\<rparr>)"

text \<open>
  The loop \<^verbatim>\<open>for k := range cfg.SmtpAddrs\<close> over the indices still to visit. An index
  outside the slice makes Go panic; that is the result \<open>None\<close>. The tuple assignment
  reads both elements before it writes either.
\<close>

fun randomizeLoop :: "nat list \<Rightarrow> string list \<Rightarrow> Rand \<Rightarrow> (string list \<times> Rand) option" where
  "randomizeLoop [] addrs r = Some (addrs, r)"
| "randomizeLoop (k # ks) addrs r =
     (let (a, r1) = Rand_Int r;
          idx1 = a mod (k + 1);
          (b, r2) = Rand_Int r1;
          idx2 = b mod (k + 1)
      in if idx1 < length addrs \<and> idx2 < length addrs
         then randomizeLoop ks (addrs[idx1 := addrs ! idx2, idx2 := addrs ! idx1]) r2
         else None)"

definition randomizeSMTPServers :: "Config \<Rightarrow> Rand \<Rightarrow> (Config \<times> Rand) option" where
  "randomizeSMTPServers cfg r =
     (case randomizeLoop [0 ..< length (SmtpAddrs cfg)] (SmtpAddrs cfg) r of
        None \<Rightarrow> None
      | Some (addrs, r') \<Rightarrow> Some (cfg\<lparr>SmtpAddrs := addrs\<rparr>, r'))"

text \<open>
  \<^verbatim>\<open>config.New\<close>. Its first two steps, \<^verbatim>\<open>parseArguments\<close> and
  \<^verbatim>\<open>parseEnvironment\<close>, read the process arguments and environment through the
  \<^verbatim>\<open>flag\<close> and \<^verbatim>\<open>os\<close> packages; the configuration they leave is the parameter
  \<open>parsed\<close>. The result is \<open>None\<close> for a panic, otherwise the error or the
  configuration with the random source as it is left.
\<close>

definition New_config :: "Config \<Rightarrow> Rand \<Rightarrow> (error + Config \<times> Rand) option" where
  "New_config parsed r =
     (case validateSettings parsed of
        Some err \<Rightarrow> Some (Inl err)
      | None \<Rightarrow>
          (case randomizeSMTPServers parsed r of
             None \<Rightarrow> None
           | Some res \<Rightarrow> Some (Inr res)))"

section \<open>Library functions used by the recipient extractor\<close>

text \<open>
  \<^verbatim>\<open>strings.Split(s, sep)\<close> for a one-byte separator: the pieces between the
  separators, one more than there are separators, so the empty string gives one empty
  piece.
\<close>

fun Split :: "string \<Rightarrow> char \<Rightarrow> string list" where
  "Split [] sep = [[]]"
| "Split (c # cs) sep =
     (if c = sep then [] # Split cs sep
      else (case Split cs sep of
              [] \<Rightarrow> [[c]]
            | p # ps \<Rightarrow> (c # p) # ps))"

text \<open>
  \<^verbatim>\<open>strings.Trim(s, cutset)\<close>: the leading and the trailing characters that belong
  to the cutset are removed, nothing else.
\<close>

definition Trim :: "string \<Rightarrow> string \<Rightarrow> string" where
  "Trim s cutset =
     rev (dropWhile (\<lambda>c. List.member cutset c) (rev (dropWhile (\<lambda>c. List.member cutset c) s)))"

text \<open>
  The regular expression \<^verbatim>\<open>.*<(.*)>\<close> under Go's leftmost-first rule: the match
  starts as early as possible and is the one a backtracking search finds first, each
  \<^verbatim>\<open>.*\<close> trying its longest extent first. The dot matches every character but the
  line feed. \<open>groupClose\<close> is the tail \<^verbatim>\<open>(.*)>\<close> and returns the group;
  \<open>matchHere\<close> is the whole expression anchored where the string starts and returns
  the matched text and the group. The three characters the expression names are ASCII,
  so matching bytes and matching UTF-8 characters select the same text.
\<close>

fun groupClose :: "string \<Rightarrow> string option" where
  "groupClose [] = None"
| "groupClose (c # cs) =
     (case (if c \<noteq> CHR 0x0A then groupClose cs else None) of
        Some g \<Rightarrow> Some (c # g)
      | None \<Rightarrow> if c = CHR ''>'' then Some [] else None)"

fun matchHere :: "string \<Rightarrow> (string \<times> string) option" where
  "matchHere [] = None"
| "matchHere (c # cs) =
     (case (if c \<noteq> CHR 0x0A then matchHere cs else None) of
        Some (w, g) \<Rightarrow> Some (c # w, g)
      | None \<Rightarrow>
          if c = CHR ''<''
          then (case groupClose cs of
                  Some g \<Rightarrow> Some (c # g @ ''>'', g)
                | None \<Rightarrow> None)
          else None)"

text \<open>
  \<^verbatim>\<open>regex.FindStringSubmatch\<close>: the matched text and the group, or the empty
  (\<^verbatim>\<open>nil\<close>) slice when no start position matches.
\<close>

fun FindStringSubmatch :: "string \<Rightarrow> string list" where
  "FindStringSubmatch [] = []"
| "FindStringSubmatch (c # cs) =
     (case matchHere (c # cs) of
        Some (w, g) \<Rightarrow> [w, g]
      | None \<Rightarrow> FindStringSubmatch cs)"

text \<open>
  A parsed header, \<^verbatim>\<open>mail.Header\<close>: the values of each field under the field's
  canonical name. \<^verbatim>\<open>Get\<close> canonicalises the name it is given (first letter and
  every letter after a hyphen in upper case, the others in lower case) and returns the
  field's first value, or the empty string when there is none.
\<close>

type_synonym Header = "string \<rightharpoonup> string list"

definition upperByte :: "char \<Rightarrow> char" where
  "upperByte c =
     (if 97 \<le> (of_char c :: nat) \<and> (of_char c :: nat) \<le> 122 then char_of ((of_char c :: nat) - 32) else c)"

definition lowerByte :: "char \<Rightarrow> char" where
  "lowerByte c =
     (if 65 \<le> (of_char c :: nat) \<and> (of_char c :: nat) \<le> 90 then char_of ((of_char c :: nat) + 32) else c)"

fun canonicalFrom :: "bool \<Rightarrow> string \<Rightarrow> string" where
  "canonicalFrom upper [] = []"
| "canonicalFrom upper (c # cs) =
     (let c' = (if upper then upperByte c else lowerByte c)
      in c' # canonicalFrom (c' = CHR ''-'') cs)"

definition CanonicalMIMEHeaderKey :: "string \<Rightarrow> string" where
  "CanonicalMIMEHeaderKey s = canonicalFrom True s"

definition Get :: "Header \<Rightarrow> string \<Rightarrow> string" where
  "Get h key =
     (case h (CanonicalMIMEHeaderKey key) of
        None \<Rightarrow> ''''
      | Some [] \<Rightarrow> ''''
      | Some (v # vs) \<Rightarrow> v)"

section \<open>Recipient extraction (internal/email/email.go)\<close>

text \<open>
  \<^verbatim>\<open>mail.ReadMessage\<close> belongs to the standard library; the extractor only uses
  whether it fails and, when it does not, the header it returns. It is the parameter
  \<open>ReadMessage\<close> of the functions below, from the message bytes to an error or a
  parsed message.
\<close>

record Message =
  Header :: Header

text \<open>
  An \<^verbatim>\<open>Email\<close> holds the message bytes and a pointer to the configuration. The
  field \<open>Config\<close> is the configuration the pointer refers to; a function that writes
  through the pointer returns the email with that field updated.
\<close>

record Email =
  Body :: string
  Config :: Config





section \<open>Recipient extraction of the second copy (src/unnamed/part\_000)\<close>

text \<open>
  The repository holds a second file of package \<^verbatim>\<open>email\<close> whose
  \<^verbatim>\<open>parseRecipients\<close> has the same two loops without the two \<^verbatim>\<open>continue\<close>
  statements.
\<close>

fun parseParts_part000 :: "string list \<Rightarrow> Email \<Rightarrow> Email" where
  "parseParts_part000 [] e = e"
| "parseParts_part000 (part # rest) e =
     (let trimmed = Trim part '' '';
          matches = FindStringSubmatch trimmed;
          recipient = (if length matches > 1 then matches ! 1 else trimmed)
      in parseParts_part000 rest
           (e\<lparr>Config := (Config e)\<lparr>Recipients := Recipients (Config e) @ [recipient]\<rparr>\<rparr>))"

fun parseHeaders_part000 :: "Message \<Rightarrow> string list \<Rightarrow> Email \<Rightarrow> Email" where
  "parseHeaders_part000 msg [] e = e"
| "parseHeaders_part000 msg (h # hs) e =
     parseHeaders_part000 msg hs
       (parseParts_part000 (Split (Get (Header msg) h) (CHR '','')) e)"

definition parseRecipients_part000 :: "(string \<Rightarrow> error + Message) \<Rightarrow> Email \<Rightarrow> error option \<times> Email" where
  "parseRecipients_part000 ReadMessage e =
     (case ReadMessage (Body e) of
        Inl err \<Rightarrow> (Some err, e)
      | Inr msg \<Rightarrow> (None, parseHeaders_part000 msg [''to'', ''cc'', ''bcc''] e))"

section \<open>The relay engine (internal/email/email.go)\<close>

text \<open>
  The engine reaches the network only through the \<^verbatim>\<open>SMTPDialer\<close> it is given and
  the \<^verbatim>\<open>SMTPClient\<close> the dialer returns. Both are parameters here: \<open>'net\<close> is
  whatever state lies behind them, \<open>'c\<close> names a client and \<open>'wc\<close> the writer
  that \<^verbatim>\<open>Data\<close> returns. Each operation takes the state and returns its result
  with the state it leaves, so that an operation may answer differently every time it
  is called. The flag of \<open>StartTLS\<close> is \<^verbatim>\<open>InsecureSkipVerify\<close> of the TLS
  configuration passed.
\<close>

record ('net, 'c, 'wc) SMTP =
  dialer :: "string \<Rightarrow> 'net \<Rightarrow> (error + 'c) \<times> 'net"
  StartTLS :: "'c \<Rightarrow> bool \<Rightarrow> 'net \<Rightarrow> error option \<times> 'net"
  Mail :: "'c \<Rightarrow> string \<Rightarrow> 'net \<Rightarrow> error option \<times> 'net"
  Rcpt :: "'c \<Rightarrow> string \<Rightarrow> 'net \<Rightarrow> error option \<times> 'net"
  Data :: "'c \<Rightarrow> 'net \<Rightarrow> (error + 'wc) \<times> 'net"
  Write :: "'wc \<Rightarrow> string \<Rightarrow> 'net \<Rightarrow> error option \<times> 'net"
  WriterClose :: "'wc \<Rightarrow> 'net \<Rightarrow> error option \<times> 'net"
  Quit :: "'c \<Rightarrow> 'net \<Rightarrow> error option \<times> 'net"
  Close :: "'c \<Rightarrow> 'net \<Rightarrow> error option \<times> 'net"

text \<open>
  What the engine does to the outside: the calls it makes, each with the error it got
  back (\<open>None\<close> for \<^verbatim>\<open>nil\<close>), and the lines it prints, each the list of the
  operands of \<^verbatim>\<open>log.Println\<close> or \<^verbatim>\<open>fmt.Println\<close>.
\<close>

datatype ('c, 'wc) call =
    CallDial string
  | CallStartTLS 'c bool
  | CallMail 'c string
  | CallRcpt 'c string
  | CallData 'c
  | CallWrite 'wc string
  | CallWriterClose 'wc
  | CallQuit 'c
  | CallClose 'c

type_synonym ('c, 'wc) event = "('c, 'wc) call \<times> error option"

datatype operand = Str string | Strs "string list"

datatype line = LogLine "operand list" | StdoutLine "operand list"

record ('net, 'c, 'wc) world =
  net :: 'net
  calls :: "('c, 'wc) event list"
  printed :: "line list"

definition perform ::
  "('c, 'wc) call \<Rightarrow> ('net \<Rightarrow> error option \<times> 'net) \<Rightarrow> ('net, 'c, 'wc) world
     \<Rightarrow> error option \<times> ('net, 'c, 'wc) world" where
  "perform cl f s =
     (case f (net s) of
        (r, n) \<Rightarrow> (r, s\<lparr>net := n, calls := calls s @ [(cl, r)]\<rparr>))"

definition acquire ::
  "('c, 'wc) call \<Rightarrow> ('net \<Rightarrow> (error + 'h) \<times> 'net) \<Rightarrow> ('net, 'c, 'wc) world
     \<Rightarrow> (error + 'h) \<times> ('net, 'c, 'wc) world" where
  "acquire cl f s =
     (case f (net s) of
        (r, n) \<Rightarrow>
          (r, s\<lparr>net := n,
                 calls := calls s @ [(cl, case r of Inl err \<Rightarrow> Some err | Inr h \<Rightarrow> None)]\<rparr>))"

definition logPrintln :: "operand list \<Rightarrow> ('net, 'c, 'wc) world \<Rightarrow> ('net, 'c, 'wc) world" where
  "logPrintln ops s = s\<lparr>printed := printed s @ [LogLine ops]\<rparr>"

definition fmtPrintln :: "operand list \<Rightarrow> ('net, 'c, 'wc) world \<Rightarrow> ('net, 'c, 'wc) world" where
  "fmtPrintln ops s = s\<lparr>printed := printed s @ [StdoutLine ops]\<rparr>"

text \<open>The recipient loop of \<^verbatim>\<open>attemptRelayWithDialer\<close>.\<close>

fun setRecipients ::
  "('net, 'c, 'wc) SMTP \<Rightarrow> 'c \<Rightarrow> string list \<Rightarrow> ('net, 'c, 'wc) world
     \<Rightarrow> error option \<times> ('net, 'c, 'wc) world" where
  "setRecipients smtp c [] s = (None, s)"
| "setRecipients smtp c (addr # rest) s =
     (case perform (CallRcpt c addr) (Rcpt smtp c addr) s of
        (Some err, s') \<Rightarrow> (Some err, logPrintln [Str ''error setting recipient:'', Str addr] s')
      | (None, s') \<Rightarrow> setRecipients smtp c rest s')"

text \<open>
  The statements of \<^verbatim>\<open>attemptRelayWithDialer\<close> that follow
  \<^verbatim>\<open>defer c.Close()\<close>.
\<close>

definition relayOver ::
  "('net, 'c, 'wc) SMTP \<Rightarrow> Email \<Rightarrow> string \<Rightarrow> 'c \<Rightarrow> ('net, 'c, 'wc) world
     \<Rightarrow> error option \<times> ('net, 'c, 'wc) world" where
  "relayOver smtp e server c s =
     (case perform (CallStartTLS c True) (StartTLS smtp c True) s of
        (Some err, s1) \<Rightarrow> (Some err, logPrintln [Str ''error starting TLS with'', Str server] s1)
      | (None, s1) \<Rightarrow>
     (case perform (CallMail c (FromAddr (Config e))) (Mail smtp c (FromAddr (Config e))) s1 of
        (Some err, s2) \<Rightarrow>
          (Some err, logPrintln [Str ''error setting sender:'', Str (FromAddr (Config e))] s2)
      | (None, s2) \<Rightarrow>
     (case setRecipients smtp c (Recipients (Config e)) s2 of
        (Some err, s3) \<Rightarrow> (Some err, s3)
      | (None, s3) \<Rightarrow>
     (case acquire (CallData c) (Data smtp c) s3 of
        (Inl err, s4) \<Rightarrow> (Some err, logPrintln [Str ''error getting data writer''] s4)
      | (Inr wc, s4) \<Rightarrow>
     (case perform (CallWrite wc (Body e)) (Write smtp wc (Body e)) s4 of
        (Some err, s5) \<Rightarrow>
          (Some err,
           snd (perform (CallWriterClose wc) (WriterClose smtp wc)
                  (logPrintln [Str ''error writing email body''] s5)))
      | (None, s5) \<Rightarrow>
     (case perform (CallWriterClose wc) (WriterClose smtp wc) s5 of
        (Some err, s6) \<Rightarrow> (Some err, logPrintln [Str ''error closing data writer''] s6)
      | (None, s6) \<Rightarrow>
     (case perform (CallQuit c) (Quit smtp c) s6 of
        (Some err, s7) \<Rightarrow> (Some err, logPrintln [Str ''error closing connection''] s7)
      | (None, s7) \<Rightarrow> (None, s7))))))))"

text \<open>
  \<^verbatim>\<open>attemptRelayWithDialer\<close>: the dial, and when it succeeds the rest of the body
  followed by the deferred \<^verbatim>\<open>c.Close()\<close>, whose result is dropped.
\<close>

definition attemptRelayWithDialer ::
  "('net, 'c, 'wc) SMTP \<Rightarrow> Email \<Rightarrow> string \<Rightarrow> ('net, 'c, 'wc) world
     \<Rightarrow> error option \<times> ('net, 'c, 'wc) world" where
  "attemptRelayWithDialer smtp e server s =
     (case acquire (CallDial server) (dialer smtp server) s of
        (Inl err, s0) \<Rightarrow> (Some err, logPrintln [Str ''error connecting to'', Str server] s0)
      | (Inr c, s0) \<Rightarrow>
          (case relayOver smtp e server c s0 of
             (r, s1) \<Rightarrow> (r, snd (perform (CallClose c) (Close smtp c) s1))))"

text \<open>
  The loop of \<^verbatim>\<open>sendWithDialer\<close> over the servers still to try; \<open>err\<close> is the
  variable \<^verbatim>\<open>err\<close>, \<^verbatim>\<open>nil\<close> until an attempt has failed.
\<close>

fun sendLoop ::
  "('net, 'c, 'wc) SMTP \<Rightarrow> Email \<Rightarrow> string list \<Rightarrow> error option \<Rightarrow> ('net, 'c, 'wc) world
     \<Rightarrow> error option \<times> ('net, 'c, 'wc) world" where
  "sendLoop smtp e [] err s =
     (Some (Errorf_w ''failed to send email to any SMTP server: '' err), s)"
| "sendLoop smtp e (server # rest) err s =
     (case attemptRelayWithDialer smtp e server s of
        (None, s') \<Rightarrow>
          (None,
           if BeVerbose (Config e)
           then fmtPrintln [Str ''successfully sent mail from'', Str (FromAddr (Config e)),
                            Str ''to'', Strs (Recipients (Config e)), Str ''via'', Str server] s'
           else s')
      | (Some err', s') \<Rightarrow> sendLoop smtp e rest (Some err') s')"

definition sendWithDialer ::
  "('net, 'c, 'wc) SMTP \<Rightarrow> Email \<Rightarrow> ('net, 'c, 'wc) world
     \<Rightarrow> error option \<times> ('net, 'c, 'wc) world" where
  "sendWithDialer smtp e s = sendLoop smtp e (SmtpAddrs (Config e)) None s"

section \<open>Notions used to state the properties\<close>

text \<open>
  The address a trimmed, non-empty part yields: the expression that
  \<^verbatim>\<open>parseRecipients\<close> assigns to \<^verbatim>\<open>recipient\<close>.
\<close>

definition addressOf :: "string \<Rightarrow> string" where
  "addressOf trimmed =
     (let matches = FindStringSubmatch trimmed
      in if length matches > 1 then matches ! 1 else trimmed)"

text \<open>
  The parts of a header value that are left after trimming spaces and dropping the
  empty ones, and those of the headers named, in the order of the names.
\<close>

definition partsOf :: "string \<Rightarrow> string list" where
  "partsOf headerValue =
     filter (\<lambda>t. t \<noteq> []) (map (\<lambda>part. Trim part '' '') (Split headerValue (CHR '','')))"

definition headerParts :: "Message \<Rightarrow> string list \<Rightarrow> string list" where
  "headerParts msg hs = concat (map (\<lambda>h. partsOf (Get (Header msg) h)) hs)"

text \<open>
  All the parts of the headers named, trimmed of spaces, the empty ones included.
\<close>

definition trimmedParts :: "Message \<Rightarrow> string list \<Rightarrow> string list" where
  "trimmedParts msg hs =
     concat (map (\<lambda>h. map (\<lambda>part. Trim part '' '') (Split (Get (Header msg) h) (CHR '',''))) hs)"

text \<open>
  Trimming in the words of the specification, "trim surrounding whitespace": space,
  horizontal tab, line feed and carriage return are removed at both ends.
\<close>

definition trimWhitespace_spec :: "string \<Rightarrow> string" where
  "trimWhitespace_spec s = Trim s [CHR '' '', CHR 0x09, CHR 0x0A, CHR 0x0D]"

text \<open>The servers dialled, in the order of the calls.\<close>

fun dialed :: "('c, 'wc) event list \<Rightarrow> string list" where
  "dialed [] = []"
| "dialed ((CallDial server, r) # evs) = server # dialed evs"
| "dialed (ev # evs) = dialed evs"

text \<open>
  The transactions with the servers listed all fail when run one after the other from
  the state given: the result is the state the last of them leaves with the error it
  returned (the error given when no server is listed), \<open>None\<close> when one succeeds.
\<close>

fun allFail ::
  "('net, 'c, 'wc) SMTP \<Rightarrow> Email \<Rightarrow> string list \<Rightarrow> error option \<Rightarrow> ('net, 'c, 'wc) world
     \<Rightarrow> (error option \<times> ('net, 'c, 'wc) world) option" where
  "allFail smtp e [] err s = Some (err, s)"
| "allFail smtp e (server # rest) err s =
     (case attemptRelayWithDialer smtp e server s of
        (None, s') \<Rightarrow> None
      | (Some err', s') \<Rightarrow> allFail smtp e rest (Some err') s')"

text \<open>
  The calls of a complete transaction over the client \<open>c\<close> and its writer \<open>wc\<close>,
  between the dial and the release of the connection.
\<close>

definition script :: "Email \<Rightarrow> 'c \<Rightarrow> 'wc \<Rightarrow> ('c, 'wc) call list" where
  "script e c wc =
     [CallStartTLS c True, CallMail c (FromAddr (Config e))]
     @ map (CallRcpt c) (Recipients (Config e))
     @ [CallData c, CallWrite wc (Body e), CallWriterClose wc, CallQuit c]"

text \<open>
  The events \<open>evs\<close> follow the calls \<open>sc\<close> with the result \<open>r\<close>: the calls
  made are those of \<open>sc\<close> in its order, each succeeds until either all of \<open>sc\<close>
  is done, and then \<open>r\<close> is \<^verbatim>\<open>nil\<close>, or one fails, and then \<open>r\<close> is its error and
  no call follows it, but for the close of the writer after a write that failed.
\<close>

definition isWrite :: "('c, 'wc) call \<Rightarrow> bool" where
  "isWrite cl = (case cl of CallWrite wc p \<Rightarrow> True | _ \<Rightarrow> False)"

fun follows :: "('c, 'wc) call list \<Rightarrow> ('c, 'wc) event list \<Rightarrow> error option \<Rightarrow> bool" where
  "follows sc [] r = (sc = [] \<and> r = None)"
| "follows [] (ev # evs) r = False"
| "follows (cl # sc) ((cl', x) # evs) r =
     (cl' = cl \<and>
      (case x of
         None \<Rightarrow> follows sc evs r
       | Some err \<Rightarrow> r = Some err \<and> map fst evs = (if isWrite cl then take 1 sc else [])))"

section \<open>Concrete inputs\<close>

text \<open>
  A client in the manner of the test suite's \<^verbatim>\<open>MockSMTPClient\<close>: for each server
  address the step that fails there (\<^verbatim>\<open>dial\<close>, \<^verbatim>\<open>tls\<close>, \<^verbatim>\<open>mail\<close>,
  \<^verbatim>\<open>rcpt\<close>, \<^verbatim>\<open>data\<close>, \<^verbatim>\<open>write\<close>, \<^verbatim>\<open>close\<close>, \<^verbatim>\<open>quit\<close>, or none), and a
  recipient that is rejected everywhere. The client and its writer are named by the
  server address; there is no state behind them.
\<close>

definition mockSMTP :: "(string \<Rightarrow> string) \<Rightarrow> string \<Rightarrow> (unit, string, string) SMTP" where
  "mockSMTP shouldFailOn failOnRecipient =
     \<lparr> dialer = (\<lambda>addr n.
         (if shouldFailOn addr = ''dial'' then Inl (ErrorString ''mock dial error'') else Inr addr, n)),
       StartTLS = (\<lambda>c v n.
         (if shouldFailOn c = ''tls'' then Some (ErrorString ''mock TLS error'') else None, n)),
       Mail = (\<lambda>c from n.
         (if shouldFailOn c = ''mail'' then Some (ErrorString ''mock mail error'') else None, n)),
       Rcpt = (\<lambda>c to n.
         (if shouldFailOn c = ''rcpt'' \<or> (failOnRecipient \<noteq> [] \<and> to = failOnRecipient)
          then Some (ErrorString ''mock rcpt error'') else None, n)),
       Data = (\<lambda>c n.
         (if shouldFailOn c = ''data'' then Inl (ErrorString ''mock data error'') else Inr c, n)),
       Write = (\<lambda>wc p n.
         (if shouldFailOn wc = ''write'' then Some (ErrorString ''mock write error'') else None, n)),
       WriterClose = (\<lambda>wc n.
         (if shouldFailOn wc = ''close'' then Some (ErrorString ''mock close error'') else None, n)),
       Quit = (\<lambda>c n.
         (if shouldFailOn c = ''quit'' then Some (ErrorString ''mock quit error'') else None, n)),
       Close = (\<lambda>c n. (None, n)) \<rparr>"

definition start :: "(unit, string, string) world" where
  "start = \<lparr> net = (), calls = [], printed = [] \<rparr>"

definition testConfig :: "string list \<Rightarrow> Config" where
  "testConfig servers =
     \<lparr> BeVerbose = True, ShowHelp = False, FromAddr = ''test@example.com'',
       SmtpAddrs = servers, Recipients = [''r1@x.tld'', ''r2@x.tld''] \<rparr>"

definition testEmail :: "string list \<Rightarrow> Email" where
  "testEmail servers = \<lparr> Body = ''body'', Config = testConfig servers \<rparr>"

text \<open>Server \<open>A\<close> fails at the step given, every other server works.\<close>

definition failsAtA :: "string \<Rightarrow> string \<Rightarrow> string" where
  "failsAtA step server = (if server = ''A'' then step else [])"

text \<open>Servers \<open>A\<close> and \<open>B\<close> fail at the steps given, every other server works.\<close>

definition failsAtAB :: "string \<Rightarrow> string \<Rightarrow> string \<Rightarrow> string" where
  "failsAtAB stepA stepB server =
     (if server = ''A'' then stepA else if server = ''B'' then stepB else [])"

text \<open>
  Parsed messages: the example of the specification, a message with a \<^verbatim>\<open>To\<close>
  header whose second part starts with a tab, a message with no recipient header, and
  one with a \<^verbatim>\<open>To\<close> header only. \<open>readsAs\<close> is a reader that parses every input
  to the message given, \<open>unreadable\<close> one that fails as \<^verbatim>\<open>mail.ReadMessage\<close> does
  on an input without a header block.
\<close>

definition exampleMessage :: Message where
  "exampleMessage =
     \<lparr> Header = [''To'' \<mapsto> [''Foo<foo@x.tld>, Bar <bar@x.tld>''],
                  ''Cc'' \<mapsto> [''Baz<baz@x.tld>''],
                  ''Bcc'' \<mapsto> [''Waldo <waldo@x.tld>, xyzzy@x.tld''],
                  ''Subject'' \<mapsto> [''Test'']] \<rparr>"

definition tabMessage :: Message where
  "tabMessage = \<lparr> Header = [''To'' \<mapsto> [''a@x.tld,'' @ [CHR 0x09] @ ''b@x.tld'']] \<rparr>"

definition noRecipientMessage :: Message where
  "noRecipientMessage =
     \<lparr> Header = [''From'' \<mapsto> [''sender@example.com''], ''Subject'' \<mapsto> [''Test'']] \<rparr>"

definition onlyToMessage :: Message where
  "onlyToMessage =
     \<lparr> Header = [''From'' \<mapsto> [''sender@example.com''], ''To'' \<mapsto> [''single@domain.tld'']] \<rparr>"

definition readsAs :: "Message \<Rightarrow> string \<Rightarrow> error + Message" where
  "readsAs msg body = Inr msg"


definition emptyConfig :: Config where
  "emptyConfig =
     \<lparr> BeVerbose = False, ShowHelp = False, FromAddr = ''test@example.com'',
       SmtpAddrs = [''smtp.example.com:587''], Recipients = [] \<rparr>"

text \<open>An email over the configuration above, before its recipients are extracted.\<close>

definition inputEmail :: Email where
  "inputEmail = \<lparr> Body = ''(message bytes)'', Config = emptyConfig \<rparr>"

text \<open>A random source whose \<open>i\<close>-th value is \<open>i * 7 + 3\<close>, nothing drawn yet.\<close>

definition testRand :: Rand where
  "testRand = \<lparr> draws = (\<lambda>i. i * 7 + 3), drawn = 0 \<rparr>"

section \<open>Facts about the library functions\<close>

lemma key_to: "CanonicalMIMEHeaderKey ''to'' = ''To''"
  by code_simp

lemma key_cc: "CanonicalMIMEHeaderKey ''cc'' = ''Cc''"
  by code_simp

lemma key_bcc: "CanonicalMIMEHeaderKey ''bcc'' = ''Bcc''"
  by code_simp

lemma Trim_empty: "Trim [] cutset = []"
  by (simp add: Trim_def)

lemma partsOf_empty: "partsOf [] = []"
  by (simp add: partsOf_def Trim_empty)

section \<open>The relay engine: the empty server list\<close>

text \<open>
  C5. With no server configured \<^verbatim>\<open>sendWithDialer\<close> fails at once: the state it
  returns is the state it was given, so nothing was dialled, no client method was called
  and nothing was printed, and the error is a plain message that wraps no other error.
\<close>

theorem send_no_servers:
  "SmtpAddrs (Config e) = [] \<Longrightarrow>
     sendWithDialer smtp e s =
       (Some (ErrorString ''failed to send email to any SMTP server: %!w(<nil>)''), s)
     \<and> (\<exists>err. fst (sendWithDialer smtp e s) = Some err \<and> Unwrap err = None)
     \<and> calls (snd (sendWithDialer smtp e s)) = calls s"
  by (simp add: sendWithDialer_def Errorf_w_def)

theorem send_no_servers_witness:
  "sendWithDialer (mockSMTP (failsAtA []) []) (testEmail []) start =
     (Some (ErrorString ''failed to send email to any SMTP server: %!w(<nil>)''), start)
   \<and> calls (snd (sendWithDialer (mockSMTP (failsAtA []) []) (testEmail []) start)) = []"
  using send_no_servers [of "testEmail []" "mockSMTP (failsAtA []) []" start]
  by (simp add: testEmail_def testConfig_def start_def)

section \<open>Recipient extraction: unparseable input\<close>



end
